theory Spec2Isabelle
  imports Main
begin

section \<open>The Matrix model of typed\_app\<close>

text \<open>
  A shallow embedding of \<^verbatim>\<open>src/typed_app/models.py\<close> (class \<^verbatim>\<open>Matrix\<close>) and of the
  matrix functions of \<^verbatim>\<open>src/typed_app/functions.py\<close>.

  Matrix elements are annotated \<^verbatim>\<open>float\<close> in the source and the tests feed integers.
  The model is polymorphic in the element type: elements are exact numbers of a
  commutative ring with unit (\<open>int\<close>, \<open>rat\<close>, \<open>real\<close>), so rounding, infinities and
  NaN are outside the model. The literals \<^verbatim>\<open>0.0\<close> and \<^verbatim>\<open>1.0\<close> are the ring's
  \<open>0\<close> and \<open>1\<close>.

  Every \<^verbatim>\<open>raise\<close> of the source is an \<open>Inl\<close> result carrying the exception class
  and its message. The source raises \<^verbatim>\<open>ValueError\<close> for every shape or size violation
  and \<^verbatim>\<open>IndexError\<close> for an index out of range.
\<close>

subsection \<open>Exceptions, list indexing, comprehensions\<close>

datatype error = ValueError string | IndexError string

text \<open>\<^verbatim>\<open>xs[i]\<close> for an index \<open>i \<ge> 0\<close> (every index of the source comes out of a
  \<^verbatim>\<open>range\<close>): Python raises IndexError beyond the end of the list.\<close>

definition getitem :: "'a list \<Rightarrow> nat \<Rightarrow> error + 'a" where
  "getitem xs i =
     (if i < length xs then Inr (xs ! i) else Inl (IndexError ''list index out of range''))"

text \<open>\<^verbatim>\<open>d[i][j]\<close>: the row is read first, then the element.\<close>

definition getitem2 :: "'a list list \<Rightarrow> nat \<Rightarrow> nat \<Rightarrow> error + 'a" where
  "getitem2 d i j = (case getitem d i of Inl e \<Rightarrow> Inl e | Inr row \<Rightarrow> getitem row j)"

text \<open>A list comprehension \<^verbatim>\<open>[f(x) for x in xs]\<close>, or a loop appending \<^verbatim>\<open>f(x)\<close> to a
  list: elements are computed from left to right and the first exception leaves.\<close>

fun comprehension :: "('i \<Rightarrow> error + 'b) \<Rightarrow> 'i list \<Rightarrow> error + 'b list" where
  "comprehension f [] = Inr []"
| "comprehension f (x # xs) =
     (case f x of
        Inl e \<Rightarrow> Inl e
      | Inr y \<Rightarrow> (case comprehension f xs of Inl e \<Rightarrow> Inl e | Inr ys \<Rightarrow> Inr (y # ys)))"


text \<open>Decimal rendering of a natural number, as an f-string does for \<^verbatim>\<open>{self.rows}\<close>.\<close>

function str_nat :: "nat \<Rightarrow> string" where
  "str_nat n =
     (if n < 10 then [''0123456789'' ! n]
      else str_nat (n div 10) @ [''0123456789'' ! (n mod 10)])"
  by pat_completeness auto
termination
  by (relation "measure (\<lambda>n. n)") auto

declare str_nat.simps [simp del]

subsection \<open>class Matrix\<close>

record 'a Matrix =
  data :: "'a list list"

text \<open>The loop of \<^verbatim>\<open>__post_init__\<close> over the rows.\<close>

fun check_rows :: "nat \<Rightarrow> 'a list list \<Rightarrow> error + unit" where
  "check_rows first_row_length [] = Inr ()"
| "check_rows first_row_length (row # rest) =
     (if length row \<noteq> first_row_length
      then Inl (ValueError ''All rows must have the same length'')
      else check_rows first_row_length rest)"

definition post_init :: "'a list list \<Rightarrow> error + unit" where
  "post_init d =
     (case d of
        [] \<Rightarrow> Inl (ValueError ''Matrix cannot be empty'')
      | row0 # _ \<Rightarrow> check_rows (length row0) d)"

text \<open>The constructor call \<^verbatim>\<open>Matrix(d)\<close>: the dataclass stores the field and runs
  \<^verbatim>\<open>__post_init__\<close>.\<close>

definition Matrix_new :: "'a list list \<Rightarrow> error + 'a Matrix" where
  "Matrix_new d = (case post_init d of Inl e \<Rightarrow> Inl e | Inr _ \<Rightarrow> Inr \<lparr>data = d\<rparr>)"

definition rows :: "'a Matrix \<Rightarrow> nat" where
  "rows m = length (data m)"

definition cols :: "'a Matrix \<Rightarrow> nat" where
  "cols m = (case data m of [] \<Rightarrow> 0 | row0 # _ \<Rightarrow> length row0)"

definition transpose_m :: "'a Matrix \<Rightarrow> error + 'a Matrix" where
  "transpose_m m =
     (case comprehension (\<lambda>i. comprehension (\<lambda>j. getitem2 (data m) j i) [0..<rows m])
             [0..<cols m] of
        Inl e \<Rightarrow> Inl e
      | Inr transposed_data \<Rightarrow> Matrix_new transposed_data)"

text \<open>\<^verbatim>\<open>__add__\<close>: both operands of \<^verbatim>\<open>+\<close> are read before they are added.\<close>

definition add :: "'a::comm_ring_1 Matrix \<Rightarrow> 'a Matrix \<Rightarrow> error + 'a Matrix" where
  "add m other =
     (if rows m \<noteq> rows other \<or> cols m \<noteq> cols other
      then Inl (ValueError (''Cannot add matrices of different sizes: ''
             @ str_nat (rows m) @ ''x'' @ str_nat (cols m) @ '' and ''
             @ str_nat (rows other) @ ''x'' @ str_nat (cols other)))
      else
        (case comprehension (\<lambda>i. comprehension (\<lambda>j.
                 (case getitem2 (data m) i j of
                    Inl e \<Rightarrow> Inl e
                  | Inr x \<Rightarrow> (case getitem2 (data other) i j of
                                Inl e \<Rightarrow> Inl e
                              | Inr y \<Rightarrow> Inr (x + y)))) [0..<cols m]) [0..<rows m] of
           Inl e \<Rightarrow> Inl e
         | Inr result_data \<Rightarrow> Matrix_new result_data))"



subsection \<open>functions.py\<close>


text \<open>\<^verbatim>\<open>size\<close> (here \<open>size'\<close>) is a Python integer, so it may be negative;
  past the guard it is positive and \<^verbatim>\<open>range(size)\<close> counts from 0 below it.\<close>

definition create_identity_matrix :: "int \<Rightarrow> error + 'a::comm_ring_1 Matrix" where
  "create_identity_matrix size' =
     (if size' < 1 then Inl (ValueError ''Matrix size must be at least 1'')
      else
        (case comprehension (\<lambda>i. comprehension (\<lambda>j. Inr (if i = j then 1 else 0))
                [0..<nat size']) [0..<nat size'] of
           Inl e \<Rightarrow> Inl e
         | Inr d \<Rightarrow> Matrix_new d))"




subsection \<open>Vocabulary of the specification\<close>

text \<open>A valid Matrix is a value the constructor accepts: building it again from its own
  grid returns it.\<close>

definition valid :: "'a Matrix \<Rightarrow> bool" where
  "valid m \<longleftrightarrow> Matrix_new (data m) = Inr m"

text \<open>The element \<open>m[i][j]\<close> of the specification.\<close>

definition elem :: "'a Matrix \<Rightarrow> nat \<Rightarrow> nat \<Rightarrow> 'a" where
  "elem m i j = data m ! i ! j"





definition transpose_twice :: "'a Matrix \<Rightarrow> error + 'a Matrix" where
  "transpose_twice m =
     (case transpose_m m of Inl e \<Rightarrow> Inl e | Inr t \<Rightarrow> transpose_m t)"

section \<open>Auxiliary facts\<close>

subsection \<open>Comprehensions, sums and the constructor\<close>

lemma comprehension_Inr:
  "(\<And>x. x \<in> set xs \<Longrightarrow> f x = Inr (g x)) \<Longrightarrow> comprehension f xs = Inr (map g xs)"
  by (induction xs) simp_all




lemma getitem2_Inr:
  "i < length d \<Longrightarrow> j < length (d ! i) \<Longrightarrow> getitem2 d i j = Inr (d ! i ! j)"
  by (simp add: getitem2_def getitem_def)

lemma check_rows_eq:
  "check_rows n d =
     (if \<forall>r\<in>set d. length r = n then Inr ()
      else Inl (ValueError ''All rows must have the same length''))"
  by (induction d) auto

lemma Matrix_new_Nil: "Matrix_new [] = Inl (ValueError ''Matrix cannot be empty'')"
  by (simp add: Matrix_new_def post_init_def)

lemma Matrix_new_Cons:
  "Matrix_new (row0 # rest) =
     (if \<forall>r\<in>set rest. length r = length row0 then Inr \<lparr>data = row0 # rest\<rparr>
      else Inl (ValueError ''All rows must have the same length''))"
  by (simp add: Matrix_new_def post_init_def check_rows_eq)

lemma Matrix_new_ok:
  assumes "d \<noteq> []" and "\<And>r. r \<in> set d \<Longrightarrow> length r = n"
  shows "Matrix_new d = Inr \<lparr>data = d\<rparr>"
proof (cases d)
  case Nil
  with assms(1) show ?thesis by simp
next
  case (Cons row0 rest)
  then have "length row0 = n" and "\<forall>r\<in>set rest. length r = n"
    using assms(2) by simp_all
  then show ?thesis
    by (simp add: Cons Matrix_new_Cons)
qed

lemma Matrix_new_ragged:
  assumes "r \<in> set d" and "length r \<noteq> length (hd d)"
  shows "Matrix_new d = Inl (ValueError ''All rows must have the same length'')"
proof (cases d)
  case Nil
  with assms(1) show ?thesis by simp
next
  case (Cons row0 rest)
  with assms have "r \<in> set rest" and "length r \<noteq> length row0"
    by auto
  then have "\<not> (\<forall>r\<in>set rest. length r = length row0)"
    by blast
  then show ?thesis
    unfolding Cons Matrix_new_Cons by (rule if_not_P)
qed

lemma valid_iff:
  "valid m \<longleftrightarrow> data m \<noteq> [] \<and> (\<forall>r\<in>set (data m). length r = cols m)"
proof (cases "data m")
  case Nil
  then show ?thesis by (simp add: valid_def Matrix_new_Nil)
next
  case (Cons row0 rest)
  have "\<lparr>data = data m\<rparr> = m" by simp
  then have "\<lparr>data = row0 # rest\<rparr> = m" by (simp only: Cons)
  then show ?thesis
    by (simp add: valid_def Cons Matrix_new_Cons cols_def)
qed

lemma valid_rows_pos: "valid m \<Longrightarrow> 0 < rows m"
  by (simp add: valid_iff rows_def)

lemma valid_row_length: "valid m \<Longrightarrow> i < rows m \<Longrightarrow> length (data m ! i) = cols m"
  by (simp add: valid_iff rows_def)

lemma valid_getitem2:
  "valid m \<Longrightarrow> i < rows m \<Longrightarrow> j < cols m \<Longrightarrow> getitem2 (data m) i j = Inr (elem m i j)"
  by (simp add: getitem2_Inr valid_row_length elem_def rows_def)


lemma comprehension2_Inr:
  "(\<And>i j. i \<in> set is \<Longrightarrow> j \<in> set js \<Longrightarrow> f i j = Inr (g i j)) \<Longrightarrow>
   comprehension (\<lambda>i. comprehension (f i) js) is = Inr (map (\<lambda>i. map (g i) js) is)"
  by (rule comprehension_Inr) (simp add: comprehension_Inr)

lemma Matrix_new_grid:
  "is \<noteq> [] \<Longrightarrow>
   Matrix_new (map (\<lambda>i. map (g i) js) is) = Inr \<lparr>data = map (\<lambda>i. map (g i) js) is\<rparr>"
  by (rule Matrix_new_ok [where n = "length js"]) auto

lemma rows_grid: "rows \<lparr>data = map (\<lambda>i. map (g i) js) is\<rparr> = length is"
  by (simp add: rows_def)

lemma cols_grid: "is \<noteq> [] \<Longrightarrow> cols \<lparr>data = map (\<lambda>i. map (g i) js) is\<rparr> = length js"
  by (cases "is") (simp_all add: cols_def)

lemma elem_grid:
  "i < length is \<Longrightarrow> j < length js \<Longrightarrow>
   elem \<lparr>data = map (\<lambda>i. map (g i) js) is\<rparr> i j = g (is ! i) (js ! j)"
  by (simp add: elem_def)

lemma valid_grid: "is \<noteq> [] \<Longrightarrow> valid \<lparr>data = map (\<lambda>i. map (g i) js) is\<rparr>"
  by (simp add: valid_def Matrix_new_grid)

lemma valid_data_grid:
  assumes "valid m"
  shows "map (\<lambda>i. map (\<lambda>j. elem m i j) [0..<cols m]) [0..<rows m] = data m"
proof (rule nth_equalityI)
  show "length (map (\<lambda>i. map (\<lambda>j. elem m i j) [0..<cols m]) [0..<rows m]) = length (data m)"
    by (simp add: rows_def)
next
  fix i
  assume "i < length (map (\<lambda>i. map (\<lambda>j. elem m i j) [0..<cols m]) [0..<rows m])"
  then have i: "i < rows m" by simp
  then have "length (data m ! i) = cols m"
    using assms by (rule valid_row_length [rotated])
  then have "map (\<lambda>j. elem m i j) [0..<cols m] = data m ! i"
    by (simp add: list_eq_iff_nth_eq elem_def)
  with i show "map (\<lambda>i. map (\<lambda>j. elem m i j) [0..<cols m]) [0..<rows m] ! i = data m ! i"
    by simp
qed

subsection \<open>The operations on valid matrices\<close>

lemma transpose_ok:
  assumes "valid m" "0 < cols m"
  shows "transpose_m m = Inr \<lparr>data = map (\<lambda>i. map (\<lambda>j. elem m j i) [0..<rows m]) [0..<cols m]\<rparr>"
proof -
  have "comprehension (\<lambda>i. comprehension (\<lambda>j. getitem2 (data m) j i) [0..<rows m]) [0..<cols m]
        = Inr (map (\<lambda>i. map (\<lambda>j. elem m j i) [0..<rows m]) [0..<cols m])"
    by (rule comprehension2_Inr) (simp add: valid_getitem2 assms)
  moreover have "[0..<cols m] \<noteq> []" using assms by simp
  ultimately show ?thesis
    by (simp add: transpose_m_def Matrix_new_grid)
qed

lemma transpose_fail:
  assumes "valid m" "cols m = 0"
  shows "transpose_m m = Inl (ValueError ''Matrix cannot be empty'')"
  using assms by (simp add: transpose_m_def Matrix_new_Nil)





lemma identity_ok:
  assumes "1 \<le> n"
  shows "create_identity_matrix n =
    Inr \<lparr>data = map (\<lambda>i. map (\<lambda>j. if i = j then 1 else 0) [0..<nat n]) [0..<nat n]\<rparr>"
proof -
  have "comprehension (\<lambda>i. comprehension (\<lambda>j. Inr (if i = j then 1 else 0 :: 'a))
                [0..<nat n]) [0..<nat n]
        = Inr (map (\<lambda>i. map (\<lambda>j. if i = j then 1 else 0) [0..<nat n]) [0..<nat n])"
    by (rule comprehension2_Inr) simp
  moreover have "[0..<nat n] \<noteq> []" using assms by simp
  ultimately show ?thesis
    using assms by (simp add: create_identity_matrix_def Matrix_new_grid)
qed

subsection \<open>The submatrix built by the determinant is the minor\<close>






subsection \<open>The Laplace loop and the determinant\<close>







section \<open>The claims of the specification\<close>

subsection \<open>Construction\<close>

text \<open>
  Claim C6. Matrix construction fails if the supplied grid has zero rows, or if any row's
  length differs from the first row's length; in particular \<^verbatim>\<open>Matrix([[1,2],[3]])\<close>
  fails. The error the specification calls ShapeError is the \<^verbatim>\<open>ValueError\<close> the
  constructor raises, with the message for the empty grid or for the ragged one.
\<close>

theorem Matrix_new_rejects_bad_grids:
  "(d = [] \<longrightarrow> Matrix_new d = Inl (ValueError ''Matrix cannot be empty''))
   \<and> ((\<exists>row\<in>set d. length row \<noteq> length (hd d)) \<longrightarrow>
        Matrix_new d = Inl (ValueError ''All rows must have the same length''))
   \<and> Matrix_new [[1, 2], [3 :: int]] = Inl (ValueError ''All rows must have the same length'')"
proof (intro conjI impI)
  assume "d = []"
  then show "Matrix_new d = Inl (ValueError ''Matrix cannot be empty'')"
    by (simp add: Matrix_new_Nil)
next
  assume "\<exists>row\<in>set d. length row \<noteq> length (hd d)"
  then obtain row where "row \<in> set d" "length row \<noteq> length (hd d)" ..
  then show "Matrix_new d = Inl (ValueError ''All rows must have the same length'')"
    by (rule Matrix_new_ragged)
next
  show "Matrix_new [[1, 2], [3 :: int]] = Inl (ValueError ''All rows must have the same length'')"
    by (simp add: Matrix_new_Cons)
qed

theorem Matrix_new_rejects_bad_grids_witness:
  "Matrix_new ([] :: int list list) = Inl (ValueError ''Matrix cannot be empty'')
   \<and> (\<exists>row\<in>set [[4, 5, 6], [7, 8 :: int]]. length row \<noteq> length (hd [[4, 5, 6], [7, 8 :: int]]))
   \<and> Matrix_new [[4, 5, 6], [7, 8 :: int]] = Inl (ValueError ''All rows must have the same length'')"
proof -
  have ragged: "\<exists>row\<in>set [[4, 5, 6], [7, 8 :: int]]. length row \<noteq> length (hd [[4, 5, 6], [7, 8 :: int]])"
    by simp
  have "Matrix_new ([] :: int list list) = Inl (ValueError ''Matrix cannot be empty'')"
    using Matrix_new_rejects_bad_grids [of "[] :: int list list"] by simp
  moreover have "Matrix_new [[4, 5, 6], [7, 8 :: int]]
      = Inl (ValueError ''All rows must have the same length'')"
    using Matrix_new_rejects_bad_grids [of "[[4, 5, 6], [7, 8 :: int]]"] ragged by blast
  ultimately show ?thesis using ragged by blast
qed

text \<open>
  Claim C9. The constructor accepts grids whose rows all have length zero: for every
  \<open>n \<ge> 1\<close>, construction from \<open>n\<close> rows of length 0 (for example
  \<^verbatim>\<open>Matrix([[]])\<close>) succeeds and yields a valid Matrix with \<open>n\<close> rows and 0 columns.
\<close>

theorem Matrix_new_accepts_empty_rows:
  "1 \<le> n \<Longrightarrow>
   Matrix_new (replicate n ([] :: 'a list)) = Inr \<lparr>data = replicate n []\<rparr>
   \<and> valid \<lparr>data = replicate n ([] :: 'a list)\<rparr>
   \<and> rows \<lparr>data = replicate n ([] :: 'a list)\<rparr> = n
   \<and> cols \<lparr>data = replicate n ([] :: 'a list)\<rparr> = 0"
proof -
  assume n: "1 \<le> n"
  then obtain k where k: "n = Suc k" by (cases n) simp_all
  have new: "Matrix_new (replicate n ([] :: 'a list)) = Inr \<lparr>data = replicate n []\<rparr>"
    by (rule Matrix_new_ok [where n = 0]) (use n in auto)
  then have "valid \<lparr>data = replicate n ([] :: 'a list)\<rparr>"
    by (simp add: valid_def)
  moreover have "rows \<lparr>data = replicate n ([] :: 'a list)\<rparr> = n"
    by (simp add: rows_def)
  moreover have "cols \<lparr>data = replicate n ([] :: 'a list)\<rparr> = 0"
    by (simp add: cols_def k)
  ultimately show ?thesis using new by simp
qed

theorem Matrix_new_accepts_empty_rows_witness:
  "(1 :: nat) \<le> 1
   \<and> Matrix_new [[] :: int list] = Inr \<lparr>data = [[]]\<rparr>
   \<and> rows \<lparr>data = [[] :: int list]\<rparr> = 1
   \<and> cols \<lparr>data = [[] :: int list]\<rparr> = 0"
  using Matrix_new_accepts_empty_rows [of 1, where 'a = int] by simp

subsection \<open>Identity and multiplication\<close>

text \<open>
  Claim C7. \<^verbatim>\<open>identity(size)\<close> fails for every \<open>size \<le> 0\<close> (the specification's
  InvalidSizeError is the \<^verbatim>\<open>ValueError\<close> of the source), and for every \<open>size \<ge> 1\<close> it
  returns a \<open>size \<times> size\<close> Matrix with 1 where \<open>i = j\<close> and 0 elsewhere.
\<close>

theorem create_identity_matrix_spec:
  "(size' \<le> 0 \<longrightarrow>
      (create_identity_matrix size' :: error + 'a::comm_ring_1 Matrix)
        = Inl (ValueError ''Matrix size must be at least 1''))
   \<and> (1 \<le> size' \<longrightarrow>
      (\<exists>r :: 'a Matrix. create_identity_matrix size' = Inr r \<and> valid r
         \<and> rows r = nat size' \<and> cols r = nat size'
         \<and> (\<forall>i<nat size'. \<forall>j<nat size'. elem r i j = (if i = j then 1 else 0))))"
proof (intro conjI impI)
  assume "size' \<le> 0"
  then show "(create_identity_matrix size' :: error + 'a Matrix)
      = Inl (ValueError ''Matrix size must be at least 1'')"
    by (simp add: create_identity_matrix_def)
next
  assume pos: "1 \<le> size'"
  let ?r = "\<lparr>data = map (\<lambda>i. map (\<lambda>j. if i = j then 1 else 0 :: 'a) [0..<nat size'])
                      [0..<nat size']\<rparr>"
  have ne: "[0..<nat size'] \<noteq> []" using pos by simp
  have "create_identity_matrix size' = Inr ?r"
    using pos by (rule identity_ok)
  moreover have "valid ?r" using ne by (rule valid_grid)
  moreover have "rows ?r = nat size'" by (simp add: rows_grid)
  moreover have "cols ?r = nat size'" using ne by (simp add: cols_grid)
  moreover have "\<forall>i<nat size'. \<forall>j<nat size'. elem ?r i j = (if i = j then 1 else 0)"
    by (simp add: elem_grid)
  ultimately show "\<exists>r :: 'a Matrix. create_identity_matrix size' = Inr r \<and> valid r
         \<and> rows r = nat size' \<and> cols r = nat size'
         \<and> (\<forall>i<nat size'. \<forall>j<nat size'. elem r i j = (if i = j then 1 else 0))"
    by blast
qed

theorem create_identity_matrix_spec_witness:
  "(create_identity_matrix 0 :: error + int Matrix)
      = Inl (ValueError ''Matrix size must be at least 1'')
   \<and> (create_identity_matrix (- 1) :: error + int Matrix)
      = Inl (ValueError ''Matrix size must be at least 1'')
   \<and> (\<exists>r :: int Matrix. create_identity_matrix 3 = Inr r \<and> valid r
         \<and> rows r = 3 \<and> cols r = 3
         \<and> (\<forall>i<3. \<forall>j<3. elem r i j = (if i = j then 1 else 0)))"
  using create_identity_matrix_spec [of 0, where 'a = int]
    create_identity_matrix_spec [of "- 1", where 'a = int]
    create_identity_matrix_spec [of 3, where 'a = int]
  by simp



subsection \<open>The constructor invariant\<close>




subsection \<open>Transpose\<close>

text \<open>
  Claim C3, as stated: for every valid Matrix, \<^verbatim>\<open>transpose()\<close> succeeds. It does not for
  the valid matrix \<^verbatim>\<open>Matrix([[]])\<close> (one row, no column): the transposed grid is the
  empty list, which the constructor refuses.
\<close>

theorem transpose_zero_columns_counterexample:
  "valid \<lparr>data = [[] :: int list]\<rparr>
   \<and> transpose_m \<lparr>data = [[] :: int list]\<rparr> = Inl (ValueError ''Matrix cannot be empty'')"
  by (simp add: valid_def Matrix_new_Cons Matrix_new_Nil transpose_m_def cols_def)

text \<open>
  Claim C3, amended: for every valid Matrix with at least one column, \<^verbatim>\<open>transpose()\<close>
  succeeds and returns a valid Matrix of shape \<open>(cols, rows)\<close> with
  \<open>result[i][j] = m[j][i]\<close> for all valid \<open>i\<close>, \<open>j\<close>; for a valid Matrix without columns
  it raises the constructor's \<^verbatim>\<open>ValueError\<close>.
\<close>

theorem transpose_spec:
  assumes "valid m"
  shows "(0 < cols m \<longrightarrow>
            (\<exists>r. transpose_m m = Inr r \<and> valid r \<and> rows r = cols m \<and> cols r = rows m
               \<and> (\<forall>i<cols m. \<forall>j<rows m. elem r i j = elem m j i)))
         \<and> (cols m = 0 \<longrightarrow> transpose_m m = Inl (ValueError ''Matrix cannot be empty''))"
proof (intro conjI impI)
  assume pos: "0 < cols m"
  let ?r = "\<lparr>data = map (\<lambda>i. map (\<lambda>j. elem m j i) [0..<rows m]) [0..<cols m]\<rparr>"
  have ne: "[0..<cols m] \<noteq> []" using pos by simp
  have "transpose_m m = Inr ?r"
    using assms pos by (rule transpose_ok)
  moreover have "valid ?r" using ne by (rule valid_grid)
  moreover have "rows ?r = cols m" by (simp add: rows_grid)
  moreover have "cols ?r = rows m" using ne by (simp add: cols_grid)
  moreover have "\<forall>i<cols m. \<forall>j<rows m. elem ?r i j = elem m j i"
    by (simp add: elem_grid)
  ultimately show "\<exists>r. transpose_m m = Inr r \<and> valid r \<and> rows r = cols m \<and> cols r = rows m
               \<and> (\<forall>i<cols m. \<forall>j<rows m. elem r i j = elem m j i)"
    by blast
next
  assume "cols m = 0"
  with assms show "transpose_m m = Inl (ValueError ''Matrix cannot be empty'')"
    by (rule transpose_fail)
qed

theorem transpose_spec_witness:
  "valid \<lparr>data = [[1, 2, 3], [4, 5, 6 :: int]]\<rparr>
   \<and> (\<exists>r. transpose_m \<lparr>data = [[1, 2, 3], [4, 5, 6 :: int]]\<rparr> = Inr r \<and> valid r
          \<and> rows r = 3 \<and> cols r = 2
          \<and> (\<forall>i<3. \<forall>j<2. elem r i j = elem \<lparr>data = [[1, 2, 3], [4, 5, 6 :: int]]\<rparr> j i))
   \<and> valid \<lparr>data = [[], [] :: int list]\<rparr>
   \<and> transpose_m \<lparr>data = [[], [] :: int list]\<rparr> = Inl (ValueError ''Matrix cannot be empty'')"
proof -
  let ?m = "\<lparr>data = [[1, 2, 3], [4, 5, 6 :: int]]\<rparr>"
  let ?z = "\<lparr>data = [[], [] :: int list]\<rparr>"
  have vm: "valid ?m" and vz: "valid ?z"
    by (simp_all add: valid_def Matrix_new_Cons)
  have shapes: "rows ?m = 2" "cols ?m = 3" "cols ?z = 0"
    by (simp_all add: rows_def cols_def)
  show ?thesis
    using transpose_spec [OF vm] transpose_spec [OF vz] vm vz by (simp add: shapes)
qed

text \<open>
  Claim C5, as stated: for every valid Matrix \<open>m\<close>, \<^verbatim>\<open>m.transpose().transpose() == m\<close>.
  For \<^verbatim>\<open>Matrix([[]])\<close> the first transpose already raises.
\<close>

theorem transpose_twice_zero_columns_counterexample:
  "valid \<lparr>data = [[] :: int list]\<rparr>
   \<and> transpose_twice \<lparr>data = [[] :: int list]\<rparr> \<noteq> Inr \<lparr>data = [[]]\<rparr>
   \<and> transpose_twice \<lparr>data = [[] :: int list]\<rparr> = Inl (ValueError ''Matrix cannot be empty'')"
  by (simp add: valid_def Matrix_new_Cons Matrix_new_Nil transpose_twice_def transpose_m_def
      cols_def)

text \<open>
  Claim C5, amended: for every valid Matrix \<open>m\<close> with at least one column,
  \<^verbatim>\<open>m.transpose().transpose() == m\<close>, equal in shape and in element values.
\<close>

theorem transpose_twice_spec:
  assumes "valid m" and "0 < cols m"
  shows "transpose_twice m = Inr m"
proof -
  let ?t = "\<lparr>data = map (\<lambda>i. map (\<lambda>j. elem m j i) [0..<rows m]) [0..<cols m]\<rparr>"
  have ne: "[0..<cols m] \<noteq> []" using assms(2) by simp
  have t: "transpose_m m = Inr ?t"
    using assms by (rule transpose_ok)
  have vt: "valid ?t" using ne by (rule valid_grid)
  have rt: "rows ?t = cols m" by (simp add: rows_grid)
  have ct: "cols ?t = rows m" using ne by (simp add: cols_grid)
  have pos: "0 < cols ?t" using valid_rows_pos [OF assms(1)] ct by simp
  have "transpose_m ?t = Inr \<lparr>data = map (\<lambda>i. map (\<lambda>j. elem ?t j i) [0..<rows ?t]) [0..<cols ?t]\<rparr>"
    using vt pos by (rule transpose_ok)
  also have "map (\<lambda>i. map (\<lambda>j. elem ?t j i) [0..<rows ?t]) [0..<cols ?t]
           = map (\<lambda>i. map (\<lambda>j. elem m i j) [0..<cols m]) [0..<rows m]"
    unfolding rt ct by (rule map_cong [OF refl], rule map_cong [OF refl]) (simp add: elem_grid)
  also have "\<dots> = data m"
    using assms(1) by (rule valid_data_grid)
  finally have "transpose_m ?t = Inr m" by simp
  then show ?thesis
    by (simp add: transpose_twice_def t)
qed

theorem transpose_twice_spec_witness:
  "valid \<lparr>data = [[1, 2, 3], [4, 5, 6 :: int]]\<rparr> \<and> 0 < cols \<lparr>data = [[1, 2, 3], [4, 5, 6 :: int]]\<rparr>
   \<and> transpose_twice \<lparr>data = [[1, 2, 3], [4, 5, 6 :: int]]\<rparr>
       = Inr \<lparr>data = [[1, 2, 3], [4, 5, 6]]\<rparr>"
proof -
  let ?m = "\<lparr>data = [[1, 2, 3], [4, 5, 6 :: int]]\<rparr>"
  have vm: "valid ?m" by (simp add: valid_def Matrix_new_Cons)
  have pos: "0 < cols ?m" by (simp add: cols_def)
  show ?thesis
    using transpose_twice_spec [OF vm pos] vm pos by simp
qed

subsection \<open>The identity matrix is neutral\<close>








subsection \<open>Determinant\<close>






end
